theory Spec2Isabelle
  imports Main "HOL-Library.Word"
begin

unbundle bit_operations_syntax

section \<open>The safe-stack runtime: data\<close>

text \<open>
  The embedding follows \<^verbatim>\<open>lib/safestack/safestack.cc\<close> on an LP64 platform:
  \<^verbatim>\<open>size_t\<close>, \<^verbatim>\<open>uptr\<close>, \<^verbatim>\<open>rlim_t\<close> and every pointer are 64-bit words, pointer
  arithmetic on \<^verbatim>\<open>char *\<close> is word addition (it wraps), and the null pointer is 0.
\<close>

type_synonym uptr = "64 word"

text \<open>Access rights of one byte of the address space.\<close>

datatype perm = Unmapped | NoAccess | ReadWrite

text \<open>
  The calls the runtime makes to the memory subsystem and to the real thread-creation
  function, in the order they are made: \<open>Mmap start len\<close>, \<open>Mprotect start len\<close>,
  \<open>Munmap start len\<close>, and \<open>Spawn p\<close> for
  \<^verbatim>\<open>REAL(pthread_create)(thread, attr, thread_start, p)\<close>.
\<close>

datatype event = Mmap uptr uptr | Mprotect uptr uptr | Munmap uptr uptr | Spawn uptr

text \<open>
  The ways the process dies: a failed \<^verbatim>\<open>CHECK_*\<close> (with the text of the check), a
  failed \<^verbatim>\<open>MmapOrDie\<close>, and a memory fault at an address.
\<close>

datatype error = CheckFailed string | MmapFailed | Segv uptr

text \<open>
  The state a thread of the process sees. The first five fields are thread-local:
  \<^verbatim>\<open>__safestack_unsafe_stack_ptr\<close>, the three static \<^verbatim>\<open>__thread\<close> variables, and the
  value this thread holds for \<^verbatim>\<open>thread_cleanup_key\<close>. The others are process-wide: the
  access rights and the contents of memory (one 64-bit cell per address a store was made
  at; the runtime only stores the five fields of one \<^verbatim>\<open>struct tinfo\<close>, 8 bytes apart),
  the calls made so far, and what \<^verbatim>\<open>__safestack_init\<close> installs.
\<close>

record world =
  safestack_unsafe_stack_ptr :: uptr
  unsafe_stack_start :: uptr
  unsafe_stack_size :: uptr
  unsafe_stack_guard :: uptr
  cleanup_value :: uptr
  perms :: "uptr \<Rightarrow> perm"
  heap :: "uptr \<Rightarrow> uptr"
  trace :: "event list"
  interceptor_installed :: bool
  cleanup_key_created :: bool

text \<open>What \<^verbatim>\<open>pthread_attr_getstacksize\<close> and \<^verbatim>\<open>pthread_attr_getguardsize\<close> read.\<close>

record pthread_attr =
  stacksize :: uptr
  guardsize :: uptr

definition kStackAlign :: uptr where
  "kStackAlign = 16"

definition kDefaultUnsafeStackSize :: uptr where
  "kDefaultUnsafeStackSize = 0x2800000"

text \<open>
  Modelled from the spec: \<^verbatim>\<open>PAGE_SIZE\<close> comes from \<^verbatim>\<open><sys/user.h>\<close>, which is not part
  of the sources; the spec fixes one page at 4096 bytes.
\<close>

definition PAGE_SIZE :: uptr where
  "PAGE_SIZE = 4096"

text \<open>
  Modelled from the spec: \<^verbatim>\<open>RLIM_INFINITY\<close> comes from \<^verbatim>\<open><sys/resource.h>\<close>; it is the
  value of an unlimited resource, all bits set.
\<close>

definition RLIM_INFINITY :: uptr where
  "RLIM_INFINITY = - 1"

text \<open>\<^verbatim>\<open>sizeof(struct tinfo)\<close>: five fields of 8 bytes.\<close>

definition sizeof_tinfo :: uptr where
  "sizeof_tinfo = 40"

definition bindE :: "error + 'a \<Rightarrow> ('a \<Rightarrow> error + 'b) \<Rightarrow> error + 'b" where
  "bindE r f = (case r of Inl e \<Rightarrow> Inl e | Inr x \<Rightarrow> f x)"

fun is_check_failure :: "error + 'a \<Rightarrow> bool" where
  "is_check_failure (Inl (CheckFailed c)) = True"
| "is_check_failure (Inl MmapFailed) = False"
| "is_check_failure (Inl (Segv a)) = False"
| "is_check_failure (Inr x) = False"

section \<open>The memory subsystem\<close>

text \<open>\<open>a\<close> is one of the \<open>len\<close> bytes that start at \<open>start\<close> (wrapping like the addresses).\<close>

definition in_range :: "uptr \<Rightarrow> uptr \<Rightarrow> uptr \<Rightarrow> bool" where
  "in_range a start len = (a - start < len)"

text \<open>
  Modelled from the spec: the page-mapping primitives \<^verbatim>\<open>MmapOrDie\<close>,
  \<^verbatim>\<open>MprotectNoAccess\<close> and \<^verbatim>\<open>UnmapOrDie\<close> belong to \<^verbatim>\<open>sanitizer_common\<close>, which is not
  part of the sources. They are page-granular: the rights of whole pages change, so a call
  on \<open>len\<close> bytes acts on \<open>len\<close> rounded up to a multiple of the page size
  (\<^verbatim>\<open>RoundUpTo(size, GetPageSizeCached())\<close>, which wraps like the sizes). The start of the
  range is the start of a page in every call of the runtime, which passes on the address
  the mapping gave.
\<close>

definition round_up_page :: "uptr \<Rightarrow> uptr" where
  "round_up_page len = (len + (PAGE_SIZE - 1)) AND NOT (PAGE_SIZE - 1)"

text \<open>\<open>a\<close> is a byte of one of the pages that hold the \<open>len\<close> bytes at \<open>start\<close>.\<close>

definition in_pages :: "uptr \<Rightarrow> uptr \<Rightarrow> uptr \<Rightarrow> bool" where
  "in_pages a start len = (a - start < round_up_page len)"

definition set_perm :: "uptr \<Rightarrow> uptr \<Rightarrow> perm \<Rightarrow> (uptr \<Rightarrow> perm) \<Rightarrow> uptr \<Rightarrow> perm" where
  "set_perm start len p f = (\<lambda>a. if in_pages a start len then p else f a)"

text \<open>
  Mapping either gives a fresh readable and writable range of pages or ends the process;
  the answer of the operating system is the parameter \<open>mm\<close> (the start address for a
  requested length, or \<open>None\<close>). Protecting makes the pages of a range inaccessible;
  unmapping removes them.
\<close>

definition MmapOrDie :: "(uptr \<Rightarrow> uptr option) \<Rightarrow> uptr \<Rightarrow> world \<Rightarrow> error + (uptr \<times> world)" where
  "MmapOrDie mm len w =
     (case mm len of
        None \<Rightarrow> Inl MmapFailed
      | Some m \<Rightarrow>
          Inr (m, w\<lparr>perms := set_perm m len ReadWrite (perms w),
                    trace := trace w @ [Mmap m len]\<rparr>))"

definition MprotectNoAccess :: "uptr \<Rightarrow> uptr \<Rightarrow> world \<Rightarrow> world" where
  "MprotectNoAccess addr len w =
     w\<lparr>perms := set_perm addr len NoAccess (perms w), trace := trace w @ [Mprotect addr len]\<rparr>"

definition UnmapOrDie :: "uptr \<Rightarrow> uptr \<Rightarrow> world \<Rightarrow> world" where
  "UnmapOrDie addr len w =
     w\<lparr>perms := set_perm addr len Unmapped (perms w), trace := trace w @ [Munmap addr len]\<rparr>"

text \<open>
  A store of a pointer-sized field through a pointer, and the matching load: both fault
  unless the first and the last byte of the cell are readable and writable.
\<close>

definition store64 :: "uptr \<Rightarrow> uptr \<Rightarrow> world \<Rightarrow> error + world" where
  "store64 p v w =
     (if perms w p = ReadWrite \<and> perms w (p + 7) = ReadWrite
      then Inr (w\<lparr>heap := (heap w)(p := v)\<rparr>) else Inl (Segv p))"

definition load64 :: "uptr \<Rightarrow> world \<Rightarrow> error + uptr" where
  "load64 p w =
     (if perms w p = ReadWrite \<and> perms w (p + 7) = ReadWrite
      then Inr (heap w p) else Inl (Segv p))"

section \<open>The runtime\<close>

subsection \<open>Allocation, installation and release of the unsafe stack\<close>

definition unsafe_stack_alloc ::
  "(uptr \<Rightarrow> uptr option) \<Rightarrow> uptr \<Rightarrow> uptr \<Rightarrow> world \<Rightarrow> error + (uptr \<times> world)" where
  "unsafe_stack_alloc mm sz guard w =
     (if \<not> sz \<le> sz + guard then Inl (CheckFailed ''(size + guard) >= (size)'')
      else bindE (MmapOrDie mm (sz + guard) w)
             (\<lambda>(addr, w1). Inr (addr + guard, MprotectNoAccess addr guard w1)))"

definition unsafe_stack_setup :: "uptr \<Rightarrow> uptr \<Rightarrow> uptr \<Rightarrow> world \<Rightarrow> error + world" where
  "unsafe_stack_setup start sz guard w =
     (if \<not> start \<le> start + sz then Inl (CheckFailed ''(start + size) >= (start)'')
      else if \<not> start \<le> start + guard then Inl (CheckFailed ''(start + guard) >= (start)'')
      else let stack_ptr = start + sz in
        if stack_ptr AND (kStackAlign - 1) \<noteq> 0
        then Inl (CheckFailed ''(stack_ptr & (kStackAlign - 1)) == (0)'')
        else Inr (w\<lparr>safestack_unsafe_stack_ptr := stack_ptr,
                    unsafe_stack_start := start,
                    unsafe_stack_size := sz,
                    unsafe_stack_guard := guard\<rparr>))"

definition unsafe_stack_free :: "world \<Rightarrow> world" where
  "unsafe_stack_free w =
     (let w1 = (if unsafe_stack_start w \<noteq> 0
                then UnmapOrDie (unsafe_stack_start w - unsafe_stack_guard w)
                       (unsafe_stack_size w + unsafe_stack_guard w) w
                else w)
      in w1\<lparr>unsafe_stack_start := 0\<rparr>)"

subsection \<open>The thread-start wrapper and the cleanup handler\<close>

text \<open>
  \<^verbatim>\<open>pthread_setspecific(thread_cleanup_key, v)\<close>: the only key the runtime uses is its own.
\<close>

definition pthread_setspecific :: "uptr \<Rightarrow> world \<Rightarrow> world" where
  "pthread_setspecific v w = w\<lparr>cleanup_value := v\<rparr>"

text \<open>
  \<^verbatim>\<open>thread_start\<close> up to the call of the user's routine: it reads the five fields of the
  \<^verbatim>\<open>struct tinfo\<close> at \<open>arg\<close>, installs the unsafe stack and sets the cleanup key to 1. It
  gives the routine, its argument and the state the routine starts in.
\<close>

definition thread_start_pre :: "uptr \<Rightarrow> world \<Rightarrow> error + (uptr \<times> uptr \<times> world)" where
  "thread_start_pre arg w =
     bindE (load64 arg w) (\<lambda>start_routine.
     bindE (load64 (arg + 8) w) (\<lambda>start_routine_arg.
     bindE (load64 (arg + 16) w) (\<lambda>ti_start.
     bindE (load64 (arg + 24) w) (\<lambda>ti_size.
     bindE (load64 (arg + 32) w) (\<lambda>ti_guard.
     bindE (unsafe_stack_setup ti_start ti_size ti_guard w) (\<lambda>w1.
     Inr (start_routine, start_routine_arg, pthread_setspecific 1 w1)))))))"

text \<open>
  \<^verbatim>\<open>thread_start\<close>: \<open>code f\<close> is the routine the function pointer \<open>f\<close> points to; it takes
  its argument and the state, and gives its result and the state it leaves.
\<close>

definition thread_start ::
  "(uptr \<Rightarrow> uptr \<Rightarrow> world \<Rightarrow> uptr \<times> world) \<Rightarrow> uptr \<Rightarrow> world \<Rightarrow> error + (uptr \<times> world)" where
  "thread_start code arg w =
     bindE (thread_start_pre arg w)
       (\<lambda>(start_routine, start_routine_arg, w1). Inr (code start_routine start_routine_arg w1))"

text \<open>
  The destructor of \<^verbatim>\<open>thread_cleanup_key\<close>. \<open>K\<close> is \<^verbatim>\<open>PTHREAD_DESTRUCTOR_ITERATIONS\<close>, a
  constant of \<^verbatim>\<open><limits.h>\<close> converted to \<^verbatim>\<open>size_t\<close> by the comparison.
\<close>

definition thread_cleanup_handler :: "uptr \<Rightarrow> uptr \<Rightarrow> world \<Rightarrow> world" where
  "thread_cleanup_handler K iter w =
     (if iter < K then pthread_setspecific (iter + 1) w else unsafe_stack_free w)"

text \<open>
  Modelled from the spec: the thread-local destructor facility of the threading library
  (not part of the sources). At thread exit it makes passes; a pass that finds a non-null
  value for the key stores null and invokes the destructor on the value it found, and a
  pass that finds null does nothing more. \<open>destructor_passes K n\<close> makes up to \<open>n\<close>
  passes, and a thread exit makes up to \<open>K\<close> of them.
\<close>

fun destructor_passes :: "uptr \<Rightarrow> nat \<Rightarrow> world \<Rightarrow> world" where
  "destructor_passes K 0 w = w"
| "destructor_passes K (Suc n) w =
     (if cleanup_value w = 0 then w
      else destructor_passes K n
             (thread_cleanup_handler K (cleanup_value w) (w\<lparr>cleanup_value := 0\<rparr>)))"

definition thread_exit :: "uptr \<Rightarrow> world \<Rightarrow> world" where
  "thread_exit K w = destructor_passes K (unat K) w"

subsection \<open>The interceptor of thread creation\<close>

text \<open>Lines 161 to 174: the sizes of the caller's attributes, or of the default ones.\<close>

definition stack_attrs :: "pthread_attr \<Rightarrow> pthread_attr option \<Rightarrow> uptr \<times> uptr" where
  "stack_attrs dflt attr =
     (case attr of
        Some a \<Rightarrow> (stacksize a, guardsize a)
      | None \<Rightarrow> (stacksize dflt, guardsize dflt))"

text \<open>
  The interceptor. \<open>mm\<close> is the answer of the memory subsystem, \<open>dflt\<close> the attributes
  \<^verbatim>\<open>pthread_attr_init\<close> gives, \<open>rc\<close> the value the real \<^verbatim>\<open>pthread_create\<close> returns.
\<close>

definition pthread_create ::
  "(uptr \<Rightarrow> uptr option) \<Rightarrow> pthread_attr \<Rightarrow> int \<Rightarrow> pthread_attr option \<Rightarrow> uptr \<Rightarrow> uptr \<Rightarrow>
     world \<Rightarrow> error + (int \<times> world)" where
  "pthread_create mm dflt rc attr start_routine arg w =
     (case stack_attrs dflt attr of (sz, guard) \<Rightarrow>
        if sz = 0 then Inl (CheckFailed ''(size) != (0)'')
        else if sz AND (kStackAlign - 1) \<noteq> 0
          then Inl (CheckFailed ''(size & (kStackAlign - 1)) == (0)'')
        else if guard AND (PAGE_SIZE - 1) \<noteq> 0
          then Inl (CheckFailed ''(guard & (PAGE_SIZE - 1)) == (0)'')
        else
          bindE (unsafe_stack_alloc mm sz guard w) (\<lambda>(addr, w1).
            let tinfo = addr + sz - sizeof_tinfo in
            bindE (store64 tinfo start_routine w1) (\<lambda>w2.
            bindE (store64 (tinfo + 8) arg w2) (\<lambda>w3.
            bindE (store64 (tinfo + 16) addr w3) (\<lambda>w4.
            bindE (store64 (tinfo + 24) sz w4) (\<lambda>w5.
            bindE (store64 (tinfo + 32) guard w5) (\<lambda>w6.
            Inr (rc, w6\<lparr>trace := trace w6 @ [Spawn tinfo]\<rparr>))))))))"

text \<open>
  The state a thread created by the real \<^verbatim>\<open>pthread_create\<close> starts in: the memory of
  the process, and thread-local variables with their initial values.
\<close>

definition new_thread :: "world \<Rightarrow> world" where
  "new_thread w =
     w\<lparr>safestack_unsafe_stack_ptr := 0, unsafe_stack_start := 0, unsafe_stack_size := 0,
       unsafe_stack_guard := 0, cleanup_value := 0\<rparr>"

subsection \<open>The initializer\<close>

text \<open>
  \<open>rl\<close> is the answer of \<^verbatim>\<open>getrlimit(RLIMIT_STACK, &limit)\<close>: its return value and
  \<^verbatim>\<open>limit.rlim_cur\<close>.
\<close>

definition safestack_init :: "(uptr \<Rightarrow> uptr option) \<Rightarrow> int \<times> uptr \<Rightarrow> world \<Rightarrow> error + world" where
  "safestack_init mm rl w =
     (let sz = (if fst rl = 0 \<and> snd rl \<noteq> RLIM_INFINITY then snd rl
                  else kDefaultUnsafeStackSize);
          guard = 4096
      in bindE (unsafe_stack_alloc mm sz guard w) (\<lambda>(addr, w1).
         bindE (unsafe_stack_setup addr sz guard w1) (\<lambda>w2.
         Inr (w2\<lparr>interceptor_installed := True, cleanup_key_created := True\<rparr>))))"

section \<open>Threads of a process\<close>

text \<open>
  The state the interceptor leaves when it succeeds: the mapping of \<open>sz + guard\<close> bytes at
  \<open>m\<close> with its first \<open>guard\<close> bytes protected, the five fields of the \<^verbatim>\<open>struct tinfo\<close>
  at \<open>t\<close>, and the three calls made.
\<close>

definition handoff_written :: "uptr \<Rightarrow> uptr \<Rightarrow> uptr \<Rightarrow> uptr \<Rightarrow> uptr \<Rightarrow> uptr \<Rightarrow> world \<Rightarrow> world" where
  "handoff_written m sz guard f x t w =
     w\<lparr>perms := set_perm m guard NoAccess (set_perm m (sz + guard) ReadWrite (perms w)),
       heap := (heap w)(t := f, t + 8 := x, t + 16 := m + guard, t + 24 := sz, t + 32 := guard),
       trace := trace w @ [Mmap m (sz + guard), Mprotect m guard, Spawn t]\<rparr>"

text \<open>
  The state in which \<^verbatim>\<open>thread_start\<close> calls the user's routine: the unsafe stack
  installed and the cleanup key set to 1.
\<close>

definition installed :: "uptr \<Rightarrow> uptr \<Rightarrow> uptr \<Rightarrow> world \<Rightarrow> world" where
  "installed start sz guard w =
     w\<lparr>safestack_unsafe_stack_ptr := start + sz, unsafe_stack_start := start,
       unsafe_stack_size := sz, unsafe_stack_guard := guard, cleanup_value := 1\<rparr>"

text \<open>
  What the main thread runs of this runtime: \<^verbatim>\<open>__safestack_init\<close> once, then any number
  of intercepted thread creations, each with the answers the platform gives to it.
\<close>

datatype create_call = Create "uptr \<Rightarrow> uptr option" int "pthread_attr option" uptr uptr

fun main_calls :: "pthread_attr \<Rightarrow> create_call list \<Rightarrow> world \<Rightarrow> error + world" where
  "main_calls dflt [] w = Inr w"
| "main_calls dflt (Create mm rc attr f x # cs) w =
     bindE (pthread_create mm dflt rc attr f x w) (\<lambda>(r, w'). main_calls dflt cs w')"

definition main_thread ::
  "(uptr \<Rightarrow> uptr option) \<Rightarrow> int \<times> uptr \<Rightarrow> pthread_attr \<Rightarrow> create_call list \<Rightarrow> world \<Rightarrow>
     error + world" where
  "main_thread mm rl dflt cs w = bindE (safestack_init mm rl w) (main_calls dflt cs)"

fun is_munmap :: "event \<Rightarrow> bool" where
  "is_munmap (Munmap a len) = True"
| "is_munmap (Mmap a len) = False"
| "is_munmap (Mprotect a len) = False"
| "is_munmap (Spawn p) = False"

text \<open>What a caller of the interceptor can observe: the way the process died, or the value
  returned and the calls made.\<close>

fun outcome :: "error + (int \<times> world) \<Rightarrow> error + (int \<times> event list)" where
  "outcome (Inl e) = Inl e"
| "outcome (Inr (r, w)) = Inr (r, trace w)"


section \<open>Example states\<close>

text \<open>
  A process at its start; the same with the runtime initialised; a thread that has been
  given a stack of \<open>0x100000\<close> bytes behind a guard page at \<open>0x7F0000000000\<close>, as created and
  as it runs; and a process that has a readable page just below \<open>0x7F0000000000\<close>.
\<close>

definition boot_example :: world where
  "boot_example =
     \<lparr>safestack_unsafe_stack_ptr = 0, unsafe_stack_start = 0, unsafe_stack_size = 0,
      unsafe_stack_guard = 0, cleanup_value = 0, perms = (\<lambda>a. Unmapped), heap = (\<lambda>a. 0),
      trace = [], interceptor_installed = False, cleanup_key_created = False\<rparr>"

definition mm_example :: "uptr \<Rightarrow> uptr option" where
  "mm_example len = Some 0x7F0000000000"

definition mm_second :: "uptr \<Rightarrow> uptr option" where
  "mm_second len = Some 0x7F0000A00000"


definition ready_example :: world where
  "ready_example = boot_example\<lparr>interceptor_installed := True, cleanup_key_created := True\<rparr>"

definition created_example :: world where
  "created_example =
     \<lparr>safestack_unsafe_stack_ptr = 0, unsafe_stack_start = 0, unsafe_stack_size = 0,
      unsafe_stack_guard = 0, cleanup_value = 0,
      perms = set_perm 0x7F0000000000 0x1000 NoAccess
                (set_perm 0x7F0000000000 0x101000 ReadWrite (\<lambda>a. Unmapped)),
      heap = (\<lambda>a. 0)(0x7F0000100FD8 := 0x401000, 0x7F0000100FE0 := 0x2A,
               0x7F0000100FE8 := 0x7F0000001000, 0x7F0000100FF0 := 0x100000,
               0x7F0000100FF8 := 0x1000),
      trace = [Mmap 0x7F0000000000 0x101000, Mprotect 0x7F0000000000 0x1000,
               Spawn 0x7F0000100FD8],
      interceptor_installed = True, cleanup_key_created = True\<rparr>"

definition armed_example :: world where
  "armed_example =
     \<lparr>safestack_unsafe_stack_ptr = 0x7F0000101000, unsafe_stack_start = 0x7F0000001000,
      unsafe_stack_size = 0x100000, unsafe_stack_guard = 0x1000, cleanup_value = 1,
      perms = set_perm 0x7F0000000000 0x1000 NoAccess
                (set_perm 0x7F0000000000 0x101000 ReadWrite (\<lambda>a. Unmapped)),
      heap = (\<lambda>a. 0),
      trace = [Mmap 0x7F0000000000 0x101000, Mprotect 0x7F0000000000 0x1000],
      interceptor_installed = True, cleanup_key_created = True\<rparr>"

definition exiting_example :: world where
  "exiting_example = armed_example\<lparr>cleanup_value := 0\<rparr>"

definition neighbour_example :: world where
  "neighbour_example =
     \<lparr>safestack_unsafe_stack_ptr = 0, unsafe_stack_start = 0, unsafe_stack_size = 0,
      unsafe_stack_guard = 0, cleanup_value = 0,
      perms = set_perm 0x7EFFFFFFF000 0x1000 ReadWrite (\<lambda>a. Unmapped), heap = (\<lambda>a. 0),
      trace = [Mmap 0x7EFFFFFFF000 0x1000],
      interceptor_installed = True, cleanup_key_created = True\<rparr>"

definition dflt_example :: pthread_attr where
  "dflt_example = \<lparr>stacksize = 0x800000, guardsize = 0x1000\<rparr>"

definition attr_example :: pthread_attr where
  "attr_example = \<lparr>stacksize = 0x100000, guardsize = 0x1000\<rparr>"

definition code_example :: "uptr \<Rightarrow> uptr \<Rightarrow> world \<Rightarrow> uptr \<times> world" where
  "code_example f a w = (if f = 0x401000 then a + 1 else 0, w)"

definition zero_size_attr :: pthread_attr where
  "zero_size_attr = \<lparr>stacksize = 0, guardsize = 0x1000\<rparr>"

definition odd_size_attr :: pthread_attr where
  "odd_size_attr = \<lparr>stacksize = 0x100008, guardsize = 0x1000\<rparr>"

definition odd_guard_attr :: pthread_attr where
  "odd_guard_attr = \<lparr>stacksize = 0x100000, guardsize = 0x800\<rparr>"

definition tiny_attr :: pthread_attr where
  "tiny_attr = \<lparr>stacksize = 16, guardsize = 0\<rparr>"

section \<open>Auxiliary facts\<close>

subsection \<open>Words\<close>

lemma align16: "(x :: 64 word) AND 15 = 0 \<longleftrightarrow> 16 dvd unat x"
  using and_mask_dvd_nat [of 4 x] by (simp add: mask_eq_exp_minus_1)

lemma align_page: "(x :: 64 word) AND 4095 = 0 \<longleftrightarrow> 4096 dvd unat x"
  using and_mask_dvd_nat [of 12 x] by (simp add: mask_eq_exp_minus_1)

lemma no_wrap_iff: "(x :: 64 word) \<le> x + y \<longleftrightarrow> unat x + unat y < 2 ^ 64"
  using no_plus_overflow_unat_size [of x y] by (simp add: word_size)








lemma unat_plus_no_wrap:
  "unat (a :: 64 word) + unat b < 2 ^ 64 \<Longrightarrow> unat (a + b) = unat a + unat b"
  using unat_add_lem [of a b] by simp

lemma page_multiple_bound:
  assumes "4096 dvd unat (g :: 64 word)"
  shows "unat g \<le> 2 ^ 64 - 4096"
proof -
  have lt: "unat g < 4096 * 2 ^ 52" using unsigned_less [of g, where ?'a = nat] by simp
  from assms obtain k where k: "unat g = 4096 * k" by (auto simp: dvd_def)
  with lt have "k < 2 ^ 52" by simp
  then have "k + 1 \<le> 2 ^ 52" by simp
  then have "4096 * (k + 1) \<le> 4096 * 2 ^ 52" by (simp only: mult_le_mono2)
  then show ?thesis using k by simp
qed

lemma small_size_no_wrap:
  assumes "(sz :: 64 word) < 40" "4096 dvd unat (guard :: 64 word)"
  shows "sz \<le> sz + guard"
proof -
  have "unat sz < 40" using assms(1) by (simp add: word_less_nat_alt)
  then show ?thesis using page_multiple_bound [OF assms(2)] by (simp add: no_wrap_iff)
qed

lemma record_below_base:
  assumes "(sz :: 64 word) < 40"
  shows "\<not> in_range (base + sz - 40) base sz"
proof -
  have "base + sz - 40 - base = sz - 40" by simp
  moreover have "\<not> sz - 40 < sz"
    using assms by (simp add: word_less_nat_alt unat_sub_if_size word_size)
  ultimately show ?thesis by (simp add: in_range_def)
qed

lemma record_within:
  assumes "(40 :: 64 word) \<le> sz"
  shows "in_range (base + sz - 40) base sz" "in_range (base + sz - 1) base sz"
proof -
  have "base + sz - 40 - base = sz - 40" "base + sz - 1 - base = sz - 1" by simp_all
  moreover have "sz - 40 < sz" "sz - 1 < sz"
    using assms by (simp_all add: word_less_nat_alt word_le_nat_alt unat_sub_if_size word_size)
  ultimately show "in_range (base + sz - 40) base sz" "in_range (base + sz - 1) base sz"
    by (simp_all add: in_range_def)
qed

subsection \<open>Results and memory\<close>

lemma bindE_Inr_iff: "bindE r f = Inr y \<longleftrightarrow> (\<exists>x. r = Inr x \<and> f x = Inr y)"
  by (cases r) (simp_all add: bindE_def)

lemma bindE_Inr [simp]: "bindE (Inr x) f = f x"
  by (simp add: bindE_def)

lemma bindE_Inl [simp]: "bindE (Inl e) f = Inl e"
  by (simp add: bindE_def)

lemma setup_Inr:
  "unsafe_stack_setup start sz guard w = Inr w' \<longleftrightarrow>
     start \<le> start + sz \<and> start \<le> start + guard \<and> (start + sz) AND 15 = 0 \<and>
     w' = w\<lparr>safestack_unsafe_stack_ptr := start + sz, unsafe_stack_start := start,
            unsafe_stack_size := sz, unsafe_stack_guard := guard\<rparr>"
  by (auto simp: unsafe_stack_setup_def kStackAlign_def Let_def)

lemma alloc_Inr:
  "unsafe_stack_alloc mm sz guard w = Inr (addr, w') \<longleftrightarrow>
     sz \<le> sz + guard \<and>
     (\<exists>m. mm (sz + guard) = Some m \<and> addr = m + guard \<and>
        w' = w\<lparr>perms := set_perm m guard NoAccess (set_perm m (sz + guard) ReadWrite (perms w)),
               trace := trace w @ [Mmap m (sz + guard), Mprotect m guard]\<rparr>)"
  by (auto simp: unsafe_stack_alloc_def MmapOrDie_def MprotectNoAccess_def split: option.splits)

lemma is_check_failure_bindE:
  "is_check_failure (bindE r f) \<longleftrightarrow>
     is_check_failure r \<or> (\<exists>x. r = Inr x \<and> is_check_failure (f x))"
  by (cases r rule: is_check_failure.cases) (simp_all add: bindE_def)

lemma not_check_failure_store [simp]: "\<not> is_check_failure (store64 p v w)"
  by (simp add: store64_def)

lemma not_check_failure_mmap: "\<not> is_check_failure (MmapOrDie mm len w)"
  by (simp add: MmapOrDie_def split: option.splits)

lemma store_Inr:
  "store64 p v w = Inr w' \<longleftrightarrow>
     perms w p = ReadWrite \<and> perms w (p + 7) = ReadWrite \<and> w' = w\<lparr>heap := (heap w)(p := v)\<rparr>"
  by (auto simp: store64_def)

lemma load_rw:
  "perms w p = ReadWrite \<Longrightarrow> perms w (p + 7) = ReadWrite \<Longrightarrow> load64 p w = Inr (heap w p)"
  by (simp add: load64_def)

subsection \<open>The destructor passes\<close>

lemma passes_null: "cleanup_value w = 0 \<Longrightarrow> destructor_passes K n w = w"
  by (cases n) simp_all

lemma passes_add: "destructor_passes K (m + n) w = destructor_passes K n (destructor_passes K m w)"
  by (induction m arbitrary: w) (simp_all add: passes_null)

lemma passes_rearm:
  "cleanup_value w \<noteq> 0 \<Longrightarrow> unat (cleanup_value w) + n \<le> unat K \<Longrightarrow>
   destructor_passes K n w = w\<lparr>cleanup_value := cleanup_value w + of_nat n\<rparr>"
proof (induction n arbitrary: w)
  case 0
  then show ?case by simp
next
  case (Suc n)
  let ?v = "cleanup_value w"
  have lt: "?v < K" using Suc.prems by (simp add: word_less_nat_alt)
  have u1: "unat (?v + 1) = unat ?v + 1"
  proof -
    have "unat ?v < unat K" using lt by (simp add: word_less_nat_alt)
    moreover have "unat K < 2 ^ 64" using unsigned_less [of K, where ?'a = nat] by simp
    ultimately have "unat ?v + unat (1 :: 64 word) < 2 ^ LENGTH(64)" by simp
    then show ?thesis using unat_add_lem [of ?v 1] by simp
  qed
  let ?w1 = "thread_cleanup_handler K ?v (w\<lparr>cleanup_value := 0\<rparr>)"
  have w1: "?w1 = w\<lparr>cleanup_value := ?v + 1\<rparr>"
    using lt by (simp add: thread_cleanup_handler_def pthread_setspecific_def)
  have nz: "cleanup_value ?w1 \<noteq> 0" 
  proof
    assume "cleanup_value ?w1 = 0"
    then have "?v + 1 = 0" by (simp add: w1)
    then have "unat (?v + 1) = 0" by simp
    then show False using u1 by simp
  qed
  have "destructor_passes K n ?w1 = ?w1\<lparr>cleanup_value := cleanup_value ?w1 + of_nat n\<rparr>"
    using Suc.prems u1 nz by (intro Suc.IH) (simp_all add: w1)
  then show ?case using Suc.prems(1) by (simp add: w1 add.assoc add.commute)
qed

lemma passes_armed_early:
  assumes "cleanup_value w = 1" "n < unat K"
  shows "destructor_passes K n w = w\<lparr>cleanup_value := 1 + of_nat n\<rparr>"
  using passes_rearm [of w n K] assms by simp

lemma passes_armed_last:
  assumes "cleanup_value w = 1" "K \<noteq> 0"
  shows "destructor_passes K (unat K) w = unsafe_stack_free (w\<lparr>cleanup_value := 0\<rparr>)"
proof -
  obtain k where k: "unat K = Suc k"
    using assms(2) by (metis not0_implies_Suc unat_eq_zero)
  have early: "destructor_passes K k w = w\<lparr>cleanup_value := 1 + of_nat k\<rparr>"
    using passes_armed_early [of w k K] assms(1) k by simp
  have "(1 :: 64 word) + of_nat k = of_nat (unat K)" using k by simp
  then have Kv: "(1 :: 64 word) + of_nat k = K" by simp
  have "destructor_passes K (k + 1) w = destructor_passes K 1 (destructor_passes K k w)"
    by (rule passes_add)
  also have "\<dots> = unsafe_stack_free (w\<lparr>cleanup_value := 0\<rparr>)"
    using assms(2) by (simp add: early Kv thread_cleanup_handler_def)
  finally show ?thesis using k by simp
qed

lemma free_cleanup_value: "cleanup_value (unsafe_stack_free w) = cleanup_value w"
  by (simp add: unsafe_stack_free_def UnmapOrDie_def Let_def)

lemma passes_armed_late:
  assumes "cleanup_value w = 1" "K \<noteq> 0" "unat K \<le> n"
  shows "destructor_passes K n w = unsafe_stack_free (w\<lparr>cleanup_value := 0\<rparr>)"
proof -
  obtain d where d: "n = unat K + d" using assms(3) le_Suc_ex by blast
  show ?thesis
    unfolding d passes_add passes_armed_last [OF assms(1,2)]
    by (rule passes_null) (simp add: free_cleanup_value)
qed

subsection \<open>The interceptor and the thread it starts\<close>

lemma create_Inr:
  assumes "pthread_create mm dflt rc attr f x w = Inr (r, w')"
    and "stack_attrs dflt attr = (sz, guard)"
  shows "\<exists>m. mm (sz + guard) = Some m \<and> r = rc \<and> sz \<le> sz + guard
     \<and> w' = handoff_written m sz guard f x (m + guard + sz - sizeof_tinfo) w
     \<and> (\<forall>k \<in> {0, 8, 16, 24, 32}.
           perms w' (m + guard + sz - sizeof_tinfo + k) = ReadWrite \<and>
           perms w' (m + guard + sz - sizeof_tinfo + k + 7) = ReadWrite)"
proof -
  from assms have ok: "sz \<noteq> 0" "sz AND (kStackAlign - 1) = 0" "guard AND (PAGE_SIZE - 1) = 0"
    by (auto simp: pthread_create_def split: if_splits)
  with assms obtain addr w1 w2 w3 w4 w5 w6 where
      al: "unsafe_stack_alloc mm sz guard w = Inr (addr, w1)"
      and s: "store64 (addr + sz - sizeof_tinfo) f w1 = Inr w2"
         "store64 (addr + sz - sizeof_tinfo + 8) x w2 = Inr w3"
         "store64 (addr + sz - sizeof_tinfo + 16) addr w3 = Inr w4"
         "store64 (addr + sz - sizeof_tinfo + 24) sz w4 = Inr w5"
         "store64 (addr + sz - sizeof_tinfo + 32) guard w5 = Inr w6"
      and r: "r = rc" "w' = w6\<lparr>trace := trace w6 @ [Spawn (addr + sz - sizeof_tinfo)]\<rparr>"
    by (auto simp: pthread_create_def bindE_Inr_iff Let_def)
  from al obtain m where m: "mm (sz + guard) = Some m" "addr = m + guard" "sz \<le> sz + guard"
     and w1: "w1 = w\<lparr>perms := set_perm m guard NoAccess (set_perm m (sz + guard) ReadWrite (perms w)),
               trace := trace w @ [Mmap m (sz + guard), Mprotect m guard]\<rparr>"
    by (auto simp: alloc_Inr)
  show ?thesis
    using m r s w1
    by (intro exI [of _ m]) (simp add: store_Inr handoff_written_def)
qed

lemma start_pre_after_create:
  assumes "pthread_create mm dflt rc attr f x w = Inr (r, w1)"
    and "stack_attrs dflt attr = (sz, guard)"
    and "mm (sz + guard) = Some m"
  shows "thread_start_pre (m + guard + sz - sizeof_tinfo) (new_thread w1) =
           bindE (unsafe_stack_setup (m + guard) sz guard (new_thread w1))
             (\<lambda>w2. Inr (f, x, pthread_setspecific 1 w2))"
proof -
  let ?t = "m + guard + sz - sizeof_tinfo"
  from create_Inr [OF assms(1,2)] assms(3)
  have w1: "w1 = handoff_written m sz guard f x ?t w"
    and rw: "\<forall>k \<in> {0, 8, 16, 24, 32}.
           perms w1 (?t + k) = ReadWrite \<and> perms w1 (?t + k + 7) = ReadWrite"
    by auto
  have p: "perms (new_thread w1) = perms w1" "heap (new_thread w1) = heap w1"
    by (simp_all add: new_thread_def)
  have l0: "load64 ?t (new_thread w1) = Inr f"
    using rw by (simp add: load64_def p) (simp add: w1 handoff_written_def)
  have l1: "load64 (?t + 8) (new_thread w1) = Inr x"
    using rw by (simp add: load64_def p) (simp add: w1 handoff_written_def)
  have l2: "load64 (?t + 16) (new_thread w1) = Inr (m + guard)"
    using rw by (simp add: load64_def p) (simp add: w1 handoff_written_def)
  have l3: "load64 (?t + 24) (new_thread w1) = Inr sz"
    using rw by (simp add: load64_def p) (simp add: w1 handoff_written_def)
  have l4: "load64 (?t + 32) (new_thread w1) = Inr guard"
    using rw by (simp add: load64_def p) (simp add: w1 handoff_written_def)
  show ?thesis
    by (simp add: thread_start_pre_def l0 l1 l2 l3 l4)
qed


lemma create_keeps_thread_state:
  assumes "pthread_create mm dflt rc attr f x w = Inr (r, w')"
  shows "cleanup_value w' = cleanup_value w \<and> unsafe_stack_start w' = unsafe_stack_start w
    \<and> unsafe_stack_size w' = unsafe_stack_size w \<and> unsafe_stack_guard w' = unsafe_stack_guard w
    \<and> filter is_munmap (trace w') = filter is_munmap (trace w)"
proof -
  obtain sz guard where sg: "stack_attrs dflt attr = (sz, guard)" by (cases "stack_attrs dflt attr")
  from create_Inr [OF assms sg] show ?thesis by (auto simp: handoff_written_def)
qed

lemma main_calls_keep_thread_state:
  "main_calls dflt cs w = Inr w' \<Longrightarrow>
     cleanup_value w' = cleanup_value w \<and> unsafe_stack_start w' = unsafe_stack_start w
     \<and> unsafe_stack_size w' = unsafe_stack_size w \<and> unsafe_stack_guard w' = unsafe_stack_guard w
     \<and> filter is_munmap (trace w') = filter is_munmap (trace w)"
proof (induction cs arbitrary: w)
  case Nil
  then show ?case by simp
next
  case (Cons c cs)
  obtain mm rc attr f x where c: "c = Create mm rc attr f x" by (cases c)
  from Cons.prems c obtain r w1 where
    s1: "pthread_create mm dflt rc attr f x w = Inr (r, w1)" and s2: "main_calls dflt cs w1 = Inr w'"
    by (auto simp: bindE_Inr_iff)
  from create_keeps_thread_state [OF s1] Cons.IH [OF s2] show ?case by simp
qed

lemma init_keeps_cleanup_value:
  assumes "safestack_init mm rl w = Inr w'"
  shows "cleanup_value w' = cleanup_value w
    \<and> filter is_munmap (trace w') = filter is_munmap (trace w)
    \<and> unsafe_stack_guard w' = 4096
    \<and> (\<exists>m. mm (unsafe_stack_size w' + 4096) = Some m \<and> unsafe_stack_start w' = m + 4096)"
proof -
  from assms obtain sz addr w1 w2 where
    al: "unsafe_stack_alloc mm sz 4096 w = Inr (addr, w1)"
    and st: "unsafe_stack_setup addr sz 4096 w1 = Inr w2"
    and w': "w' = w2\<lparr>interceptor_installed := True, cleanup_key_created := True\<rparr>"
    by (auto simp: safestack_init_def bindE_Inr_iff Let_def)
  then show ?thesis by (auto simp: setup_Inr alloc_Inr)
qed

subsection \<open>Evaluation on the example states\<close>

lemmas eval_defs =
  pthread_create_def stack_attrs_def kStackAlign_def PAGE_SIZE_def sizeof_tinfo_def
  unsafe_stack_alloc_def MmapOrDie_def MprotectNoAccess_def mm_example_def store64_def
  boot_example_def ready_example_def attr_example_def dflt_example_def set_perm_def
  in_pages_def round_up_page_def in_range_def Let_def

lemma create_example:
  "pthread_create mm_example dflt_example 0 (Some attr_example) 0x401000 0x2A ready_example =
     Inr (0, handoff_written 0x7F0000000000 0x100000 0x1000 0x401000 0x2A 0x7F0000100FD8
               ready_example)"
  by (simp add: eval_defs handoff_written_def cong: if_cong)


lemma created_start_pre:
  "thread_start_pre 0x7F0000100FD8 created_example =
     Inr (0x401000, 0x2A,
          created_example\<lparr>safestack_unsafe_stack_ptr := 0x7F0000101000,
            unsafe_stack_start := 0x7F0000001000, unsafe_stack_size := 0x100000,
            unsafe_stack_guard := 0x1000, cleanup_value := 1\<rparr>)"
  by (simp add: thread_start_pre_def load64_def created_example_def set_perm_def in_pages_def
      round_up_page_def PAGE_SIZE_def
      unsafe_stack_setup_def kStackAlign_def pthread_setspecific_def Let_def)

section \<open>The claims\<close>

text \<open>
  C1. For a thread armed by \<^verbatim>\<open>thread_start\<close> (the cleanup key holds 1) and \<open>K\<close> at least
  1: the handler, invoked on a counter below \<open>K\<close>, stores the counter plus one and changes
  nothing else; after fewer than \<open>K\<close> passes the state differs from the armed one only in
  the counter; the pass on which the counter is \<open>K\<close> is the one that frees; later passes
  change nothing. So the calls made hold exactly one unmap of the region, made on pass
  \<open>K\<close> (none when there is no region to free).
\<close>

theorem cleanup_release_on_pass_K:
  assumes "cleanup_value w = 1" and "K \<noteq> 0"
  shows "(iter < K \<longrightarrow> thread_cleanup_handler K iter v = v\<lparr>cleanup_value := iter + 1\<rparr>)
    \<and> (n < unat K \<longrightarrow> destructor_passes K n w = w\<lparr>cleanup_value := 1 + of_nat n\<rparr>)
    \<and> (unat K \<le> n \<longrightarrow> destructor_passes K n w = unsafe_stack_free (w\<lparr>cleanup_value := 0\<rparr>))
    \<and> trace (destructor_passes K n w) =
          trace w @ (if n < unat K \<or> unsafe_stack_start w = 0 then []
                     else [Munmap (unsafe_stack_start w - unsafe_stack_guard w)
                             (unsafe_stack_size w + unsafe_stack_guard w)])
    \<and> thread_exit K w = unsafe_stack_free (w\<lparr>cleanup_value := 0\<rparr>)"
proof (intro conjI impI)
  assume "iter < K"
  then show "thread_cleanup_handler K iter v = v\<lparr>cleanup_value := iter + 1\<rparr>"
    by (simp add: thread_cleanup_handler_def pthread_setspecific_def)
next
  assume "n < unat K"
  then show "destructor_passes K n w = w\<lparr>cleanup_value := 1 + of_nat n\<rparr>"
    using assms(1) by (rule passes_armed_early [rotated])
next
  assume "unat K \<le> n"
  then show "destructor_passes K n w = unsafe_stack_free (w\<lparr>cleanup_value := 0\<rparr>)"
    using assms by (intro passes_armed_late)
next
  show "trace (destructor_passes K n w) =
          trace w @ (if n < unat K \<or> unsafe_stack_start w = 0 then []
                     else [Munmap (unsafe_stack_start w - unsafe_stack_guard w)
                             (unsafe_stack_size w + unsafe_stack_guard w)])"
  proof (cases "n < unat K")
    case True
    then show ?thesis using passes_armed_early [OF assms(1) True] by simp
  next
    case False
    then have "destructor_passes K n w = unsafe_stack_free (w\<lparr>cleanup_value := 0\<rparr>)"
      using assms by (intro passes_armed_late) simp_all
    then show ?thesis using False
      by (simp add: unsafe_stack_free_def UnmapOrDie_def Let_def)
  qed
next
  show "thread_exit K w = unsafe_stack_free (w\<lparr>cleanup_value := 0\<rparr>)"
    unfolding thread_exit_def using assms by (rule passes_armed_last)
qed

theorem cleanup_release_on_pass_K_witness:
  "cleanup_value armed_example = 1 \<and> (4 :: 64 word) \<noteq> 0 \<and> (2 :: 64 word) < 4
   \<and> (3 :: nat) < unat (4 :: 64 word) \<and> unat (4 :: 64 word) \<le> 4
   \<and> thread_cleanup_handler 4 2 armed_example = armed_example\<lparr>cleanup_value := 3\<rparr>
   \<and> cleanup_value (destructor_passes 4 3 armed_example) = 4
   \<and> trace (destructor_passes 4 3 armed_example) = trace armed_example
   \<and> trace (destructor_passes 4 4 armed_example) =
         trace armed_example @ [Munmap 0x7F0000000000 0x101000]
   \<and> unsafe_stack_start (thread_exit 4 armed_example) = 0"
  using cleanup_release_on_pass_K [of armed_example 4 2 armed_example 3]
        cleanup_release_on_pass_K [of armed_example 4 2 armed_example 4]
  by (simp add: armed_example_def unsafe_stack_free_def UnmapOrDie_def Let_def)

text \<open>
  C2. \<^verbatim>\<open>unsafe_stack_setup\<close>, when it returns, has set the stack-pointer slot to
  \<open>start + sz\<close>, a multiple of 16; when \<open>start + sz\<close> is not a multiple of 16 it ends the
  process in a failed check; it returns whenever the two additions do not wrap and the sum
  is a multiple of 16. So a thread that reaches the user's routine has a stack pointer that
  is a multiple of 16 and equal to the start of its region plus its size.
\<close>

theorem unsafe_stack_setup_aligned:
  "(unsafe_stack_setup start sz guard w = Inr w' \<longrightarrow>
      safestack_unsafe_stack_ptr w' = start + sz \<and> 16 dvd unat (safestack_unsafe_stack_ptr w'))
   \<and> (\<not> 16 dvd unat (start + sz) \<longrightarrow> is_check_failure (unsafe_stack_setup start sz guard w))
   \<and> (start \<le> start + sz \<and> start \<le> start + guard \<and> 16 dvd unat (start + sz) \<longrightarrow>
        unsafe_stack_setup start sz guard w =
          Inr (w\<lparr>safestack_unsafe_stack_ptr := start + sz, unsafe_stack_start := start,
                 unsafe_stack_size := sz, unsafe_stack_guard := guard\<rparr>))
   \<and> (thread_start_pre arg w = Inr (f, a, w2) \<longrightarrow>
        safestack_unsafe_stack_ptr w2 = unsafe_stack_start w2 + unsafe_stack_size w2 \<and>
        16 dvd unat (safestack_unsafe_stack_ptr w2))"
proof (intro conjI impI)
  assume "unsafe_stack_setup start sz guard w = Inr w'"
  then show "safestack_unsafe_stack_ptr w' = start + sz" by (simp add: setup_Inr)
next
  assume "unsafe_stack_setup start sz guard w = Inr w'"
  then show "16 dvd unat (safestack_unsafe_stack_ptr w')"
    by (simp add: setup_Inr align16)
next
  assume "\<not> 16 dvd unat (start + sz)"
  then show "is_check_failure (unsafe_stack_setup start sz guard w)"
    by (simp add: unsafe_stack_setup_def kStackAlign_def Let_def align16)
next
  assume "start \<le> start + sz \<and> start \<le> start + guard \<and> 16 dvd unat (start + sz)"
  then show "unsafe_stack_setup start sz guard w =
          Inr (w\<lparr>safestack_unsafe_stack_ptr := start + sz, unsafe_stack_start := start,
                 unsafe_stack_size := sz, unsafe_stack_guard := guard\<rparr>)"
    by (simp add: setup_Inr align16)
next
  assume a: "thread_start_pre arg w = Inr (f, a, w2)"
  then obtain st s g w1 where "unsafe_stack_setup st s g w = Inr w1" "w2 = pthread_setspecific 1 w1"
    by (auto simp: thread_start_pre_def bindE_Inr_iff)
  then show "safestack_unsafe_stack_ptr w2 = unsafe_stack_start w2 + unsafe_stack_size w2"
    and "16 dvd unat (safestack_unsafe_stack_ptr w2)"
    by (simp_all add: setup_Inr align16 pthread_setspecific_def)
qed

theorem unsafe_stack_setup_aligned_witness:
  "unsafe_stack_setup 0x7F0000001000 0x100000 0x1000 boot_example =
     Inr (boot_example\<lparr>safestack_unsafe_stack_ptr := 0x7F0000101000,
            unsafe_stack_start := 0x7F0000001000, unsafe_stack_size := 0x100000,
            unsafe_stack_guard := 0x1000\<rparr>)
   \<and> (16 :: nat) dvd unat (0x7F0000101000 :: 64 word)
   \<and> \<not> (16 :: nat) dvd unat (0x7F0000001000 + 0x100008 :: 64 word)
   \<and> is_check_failure (unsafe_stack_setup 0x7F0000001000 0x100008 0x1000 boot_example)
   \<and> (\<exists>w2. thread_start_pre 0x7F0000100FD8 created_example = Inr (0x401000, 0x2A, w2)
         \<and> safestack_unsafe_stack_ptr w2 = 0x7F0000101000
         \<and> (16 :: nat) dvd unat (safestack_unsafe_stack_ptr w2))"
proof -
  let ?w1 = "boot_example\<lparr>safestack_unsafe_stack_ptr := 0x7F0000101000,
            unsafe_stack_start := 0x7F0000001000, unsafe_stack_size := 0x100000,
            unsafe_stack_guard := 0x1000\<rparr>"
  let ?w2 = "created_example\<lparr>safestack_unsafe_stack_ptr := 0x7F0000101000,
            unsafe_stack_start := 0x7F0000001000, unsafe_stack_size := 0x100000,
            unsafe_stack_guard := 0x1000, cleanup_value := 1\<rparr>"
  have d: "(16 :: nat) dvd unat (0x7F0000101000 :: 64 word)"
     "\<not> (16 :: nat) dvd unat (0x7F0000001000 + 0x100008 :: 64 word)" by simp_all
  have le: "(0x7F0000001000 :: 64 word) \<le> 0x7F0000001000 + 0x100000"
     "(0x7F0000001000 :: 64 word) \<le> 0x7F0000001000 + 0x1000" by simp_all
  note t1 = unsafe_stack_setup_aligned
      [of "0x7F0000001000" "0x100000" "0x1000" boot_example ?w1 "0x7F0000100FD8"
          "0x401000" "0x2A" ?w2]
  note t2 = unsafe_stack_setup_aligned
      [of "0x7F0000001000" "0x100008" "0x1000" boot_example ?w1 "0x7F0000100FD8"
          "0x401000" "0x2A" ?w2]
  show ?thesis using t1 t2 d le created_start_pre by simp
qed




text \<open>
  C4. After an intercepted creation with routine \<open>f\<close> and argument \<open>x\<close> has returned, the
  record handed to the real \<^verbatim>\<open>pthread_create\<close> holds \<open>f\<close> and \<open>x\<close>, and
  \<^verbatim>\<open>thread_start\<close> on the new thread installs the region \<open>m + guard\<close>, \<open>sz\<close>, \<open>guard\<close> and
  gives what one call of \<open>f\<close> on \<open>x\<close> gives in the installed state; it does so whenever the
  checks of the installation hold, and otherwise ends the process in a failed check.
\<close>

theorem thread_start_calls_entry:
  assumes "pthread_create mm dflt rc attr f x w = Inr (r, w1)"
    and "stack_attrs dflt attr = (sz, guard)"
    and "mm (sz + guard) = Some m"
  shows "last (trace w1) = Spawn (m + guard + sz - sizeof_tinfo)
    \<and> heap w1 (m + guard + sz - sizeof_tinfo) = f
    \<and> heap w1 (m + guard + sz - sizeof_tinfo + 8) = x
    \<and> thread_start code (m + guard + sz - sizeof_tinfo) (new_thread w1) =
        bindE (unsafe_stack_setup (m + guard) sz guard (new_thread w1))
          (\<lambda>w2. Inr (code f x (pthread_setspecific 1 w2)))
    \<and> (m + guard \<le> m + guard + sz \<and> m + guard \<le> m + guard + guard
          \<and> 16 dvd unat (m + guard + sz) \<longrightarrow>
        thread_start code (m + guard + sz - sizeof_tinfo) (new_thread w1) =
          Inr (code f x (installed (m + guard) sz guard (new_thread w1))))
    \<and> (\<not> (m + guard \<le> m + guard + sz \<and> m + guard \<le> m + guard + guard
          \<and> 16 dvd unat (m + guard + sz)) \<longrightarrow>
        is_check_failure (thread_start code (m + guard + sz - sizeof_tinfo) (new_thread w1)))"
proof -
  let ?t = "m + guard + sz - sizeof_tinfo"
  from create_Inr [OF assms(1,2)] assms(3)
  have w1: "w1 = handoff_written m sz guard f x ?t w" by auto
  have a: "last (trace w1) = Spawn ?t" by (simp add: w1 handoff_written_def)
  have b: "heap w1 ?t = f" by (simp add: w1 handoff_written_def)
  have c: "heap w1 (?t + 8) = x" by (simp add: w1 handoff_written_def)
  have d: "thread_start code ?t (new_thread w1) =
        bindE (unsafe_stack_setup (m + guard) sz guard (new_thread w1))
          (\<lambda>w2. Inr (code f x (pthread_setspecific 1 w2)))"
    unfolding thread_start_def start_pre_after_create [OF assms]
    by (cases "unsafe_stack_setup (m + guard) sz guard (new_thread w1)") simp_all
  have e: "m + guard \<le> m + guard + sz \<and> m + guard \<le> m + guard + guard
          \<and> 16 dvd unat (m + guard + sz) \<longrightarrow>
        thread_start code ?t (new_thread w1) =
          Inr (code f x (installed (m + guard) sz guard (new_thread w1)))"
    unfolding d
    by (simp add: unsafe_stack_setup_def kStackAlign_def Let_def align16 installed_def
        pthread_setspecific_def)
  have g: "\<not> (m + guard \<le> m + guard + sz \<and> m + guard \<le> m + guard + guard
          \<and> 16 dvd unat (m + guard + sz)) \<longrightarrow>
        is_check_failure (thread_start code ?t (new_thread w1))"
    unfolding d
    by (simp add: unsafe_stack_setup_def kStackAlign_def Let_def align16)
  show ?thesis using a b c d e g by blast
qed

theorem thread_start_calls_entry_witness:
  "\<exists>w1. pthread_create mm_example dflt_example 0 (Some attr_example) 0x401000 0x2A ready_example
            = Inr (0, w1)
     \<and> stack_attrs dflt_example (Some attr_example) = (0x100000, 0x1000)
     \<and> mm_example (0x100000 + 0x1000) = Some 0x7F0000000000
     \<and> last (trace w1) = Spawn 0x7F0000100FD8
     \<and> heap w1 0x7F0000100FD8 = 0x401000
     \<and> heap w1 0x7F0000100FE0 = 0x2A
     \<and> thread_start code_example 0x7F0000100FD8 (new_thread w1) =
         Inr (0x2B, installed 0x7F0000001000 0x100000 0x1000 (new_thread w1))"
proof -
  let ?w1 = "handoff_written 0x7F0000000000 0x100000 0x1000 0x401000 0x2A 0x7F0000100FD8
               ready_example"
  have sa: "stack_attrs dflt_example (Some attr_example) = (0x100000, 0x1000)"
    by (simp add: stack_attrs_def attr_example_def)
  have mm: "mm_example (0x100000 + 0x1000) = Some 0x7F0000000000"
    by (simp add: mm_example_def)
  note t = thread_start_calls_entry [OF create_example sa mm, of code_example]
  have c: "(0x7F0000000000 :: 64 word) + 0x1000 \<le> 0x7F0000000000 + 0x1000 + 0x100000
    \<and> (0x7F0000000000 :: 64 word) + 0x1000 \<le> 0x7F0000000000 + 0x1000 + 0x1000
    \<and> (16 :: nat) dvd unat (0x7F0000000000 + 0x1000 + 0x100000 :: 64 word)"
    by simp
  note t1 = t [THEN conjunct1]
  note t2 = t [THEN conjunct2, THEN conjunct1]
  note t3 = t [THEN conjunct2, THEN conjunct2, THEN conjunct1]
  note t5 = t [THEN conjunct2, THEN conjunct2, THEN conjunct2, THEN conjunct2, THEN conjunct1,
      THEN mp, OF c]
  from t1 t2 t3 t5 have "last (trace ?w1) = Spawn 0x7F0000100FD8
     \<and> heap ?w1 0x7F0000100FD8 = 0x401000
     \<and> heap ?w1 0x7F0000100FE0 = 0x2A
     \<and> thread_start code_example 0x7F0000100FD8 (new_thread ?w1) =
         Inr (0x2B, installed 0x7F0000001000 0x100000 0x1000 (new_thread ?w1))"
    by (simp add: sizeof_tinfo_def code_example_def)
  with create_example sa mm show ?thesis by blast
qed

text \<open>
  C5. With \<open>sz\<close> and \<open>guard\<close> read from the caller's attributes, or from the default ones
  when there are none: if \<open>sz\<close> is 0, or not a multiple of 16, or \<open>guard\<close> is not a multiple
  of the page size, the interceptor ends the process in a failed check, so it returns
  nothing to its caller; when it does return, the sizes were valid and the value is the one
  of the real \<^verbatim>\<open>pthread_create\<close>.
\<close>

theorem pthread_create_validates:
  assumes "stack_attrs dflt attr = (sz, guard)"
  shows "(sz = 0 \<or> \<not> 16 dvd unat sz \<or> \<not> 4096 dvd unat guard \<longrightarrow>
           is_check_failure (pthread_create mm dflt rc attr f x w))
    \<and> (pthread_create mm dflt rc attr f x w = Inr (r, w') \<longrightarrow>
           r = rc \<and> sz \<noteq> 0 \<and> 16 dvd unat sz \<and> 4096 dvd unat guard)
    \<and> stack_attrs dflt (Some a) = (stacksize a, guardsize a)
    \<and> stack_attrs dflt None = (stacksize dflt, guardsize dflt)"
proof (intro conjI impI)
  assume "sz = 0 \<or> \<not> 16 dvd unat sz \<or> \<not> 4096 dvd unat guard"
  then show "is_check_failure (pthread_create mm dflt rc attr f x w)"
    using assms
    by (auto simp: pthread_create_def kStackAlign_def PAGE_SIZE_def align16 align_page)
next
  assume r: "pthread_create mm dflt rc attr f x w = Inr (r, w')"
  then show "sz \<noteq> 0" "16 dvd unat sz" "4096 dvd unat guard"
    using assms
    by (auto simp: pthread_create_def kStackAlign_def PAGE_SIZE_def align16 align_page
        split: if_splits)
  from r show "r = rc"
    using assms
    by (auto simp: pthread_create_def bindE_Inr_iff Let_def split: if_splits)
qed (simp_all add: stack_attrs_def)

theorem pthread_create_validates_witness:
  "stack_attrs dflt_example (Some zero_size_attr) = (0, 0x1000)
   \<and> is_check_failure (pthread_create mm_example dflt_example 0 (Some zero_size_attr)
        0x401000 0x2A ready_example)
   \<and> stack_attrs dflt_example (Some odd_size_attr) = (0x100008, 0x1000)
   \<and> \<not> (16 :: nat) dvd unat (0x100008 :: 64 word)
   \<and> is_check_failure (pthread_create mm_example dflt_example 0 (Some odd_size_attr)
        0x401000 0x2A ready_example)
   \<and> stack_attrs dflt_example (Some odd_guard_attr) = (0x100000, 0x800)
   \<and> \<not> (4096 :: nat) dvd unat (0x800 :: 64 word)
   \<and> is_check_failure (pthread_create mm_example dflt_example 0 (Some odd_guard_attr)
        0x401000 0x2A ready_example)
   \<and> stack_attrs dflt_example None = (0x800000, 0x1000)
   \<and> (\<exists>w'. pthread_create mm_example dflt_example 0 (Some attr_example) 0x401000 0x2A
               ready_example = Inr (0, w'))"
proof -
  have s1: "stack_attrs dflt_example (Some zero_size_attr) = (0, 0x1000)"
    and s2: "stack_attrs dflt_example (Some odd_size_attr) = (0x100008, 0x1000)"
    and s3: "stack_attrs dflt_example (Some odd_guard_attr) = (0x100000, 0x800)"
    and s4: "stack_attrs dflt_example (Some attr_example) = (0x100000, 0x1000)"
    by (simp_all add: stack_attrs_def zero_size_attr_def odd_size_attr_def odd_guard_attr_def
        attr_example_def)
  have d: "\<not> (16 :: nat) dvd unat (0x100008 :: 64 word)"
    "\<not> (4096 :: nat) dvd unat (0x800 :: 64 word)" by simp_all
  note t1 = pthread_create_validates [OF s1, of mm_example 0 "0x401000" "0x2A" ready_example]
  note t2 = pthread_create_validates [OF s2, of mm_example 0 "0x401000" "0x2A" ready_example]
  note t3 = pthread_create_validates [OF s3, of mm_example 0 "0x401000" "0x2A" ready_example]
  note t4 = pthread_create_validates [OF s4, of mm_example 0 "0x401000" "0x2A" ready_example]
  have r1: "is_check_failure (pthread_create mm_example dflt_example 0 (Some zero_size_attr)
        0x401000 0x2A ready_example)"
    using t1 by simp
  have r2: "is_check_failure (pthread_create mm_example dflt_example 0 (Some odd_size_attr)
        0x401000 0x2A ready_example)"
    using t2 d by simp
  have r3: "is_check_failure (pthread_create mm_example dflt_example 0 (Some odd_guard_attr)
        0x401000 0x2A ready_example)"
    using t3 d by simp
  have r4: "stack_attrs dflt_example None = (0x800000, 0x1000)"
    using t4 by (simp add: dflt_example_def)
  show ?thesis using s1 s2 s3 d r1 r2 r3 r4 create_example by blast
qed

text \<open>
  C6, as stated, fails. With a size of 16 and no guard, next to a readable page, the
  interceptor returns 0 after writing the record at \<open>0x7EFFFFFFFFE8\<close>, below the region;
  with a guard page the process dies of a memory fault in the first store. Neither is a
  failed check.
\<close>

theorem handoff_record_overflow_counterexample:
  "stacksize \<lparr>stacksize = 16, guardsize = 0\<rparr> < sizeof_tinfo
   \<and> outcome (pthread_create mm_example dflt_example 0 (Some \<lparr>stacksize = 16, guardsize = 0\<rparr>)
        0x401000 0x2A neighbour_example) =
       Inr (0, [Mmap 0x7EFFFFFFF000 0x1000, Mmap 0x7F0000000000 16, Mprotect 0x7F0000000000 0,
                Spawn 0x7EFFFFFFFFE8])
   \<and> \<not> in_range 0x7EFFFFFFFFE8 0x7F0000000000 16
   \<and> \<not> is_check_failure (pthread_create mm_example dflt_example 0
        (Some \<lparr>stacksize = 16, guardsize = 0\<rparr>) 0x401000 0x2A neighbour_example)
   \<and> pthread_create mm_example dflt_example 0 (Some \<lparr>stacksize = 16, guardsize = 0x1000\<rparr>)
        0x401000 0x2A boot_example = Inl (Segv 0x7F0000000FE8)"
  by (simp add: pthread_create_def stack_attrs_def kStackAlign_def PAGE_SIZE_def
      sizeof_tinfo_def unsafe_stack_alloc_def MmapOrDie_def MprotectNoAccess_def mm_example_def
      store64_def neighbour_example_def boot_example_def set_perm_def in_pages_def
      round_up_page_def in_range_def Let_def)

text \<open>
  C6, amended. The interceptor does not check that the record fits. For a valid size below
  the 40 bytes of the record it never ends in a failed check, and the record, placed at
  \<open>base + sz - 40\<close>, starts outside the \<open>sz\<close> usable bytes at \<open>base\<close>. For a size of at least
  40 the first and the last byte of the record are among the usable bytes. When the
  interceptor returns, the record at the address given to the real \<^verbatim>\<open>pthread_create\<close>
  holds the routine, its argument, the region's start, its size and its guard size.
\<close>

theorem handoff_record_placement:
  assumes "stack_attrs dflt attr = (sz, guard)"
    and "sz \<noteq> 0" and "16 dvd unat sz" and "4096 dvd unat guard"
  shows "(sz < sizeof_tinfo \<longrightarrow>
            \<not> is_check_failure (pthread_create mm dflt rc attr f x w)
            \<and> \<not> in_range (base + sz - sizeof_tinfo) base sz)
    \<and> (sizeof_tinfo \<le> sz \<longrightarrow>
            in_range (base + sz - sizeof_tinfo) base sz
            \<and> in_range (base + sz - sizeof_tinfo + 39) base sz)
    \<and> (pthread_create mm dflt rc attr f x w = Inr (r, w') \<longrightarrow>
          (\<exists>m. mm (sz + guard) = Some m
             \<and> last (trace w') = Spawn (m + guard + sz - sizeof_tinfo)
             \<and> heap w' (m + guard + sz - sizeof_tinfo) = f
             \<and> heap w' (m + guard + sz - sizeof_tinfo + 8) = x
             \<and> heap w' (m + guard + sz - sizeof_tinfo + 16) = m + guard
             \<and> heap w' (m + guard + sz - sizeof_tinfo + 24) = sz
             \<and> heap w' (m + guard + sz - sizeof_tinfo + 32) = guard))"
proof (intro conjI impI)
  assume small: "sz < sizeof_tinfo"
  then have le: "sz \<le> sz + guard"
    using assms(4) by (intro small_size_no_wrap) (simp_all add: sizeof_tinfo_def)
  have "\<not> is_check_failure (unsafe_stack_alloc mm sz guard w)"
    using le by (simp add: unsafe_stack_alloc_def MmapOrDie_def split: option.splits)
  then have "\<not> is_check_failure
       (bindE (unsafe_stack_alloc mm sz guard w) (\<lambda>(addr, w1).
            let tinfo = addr + sz - sizeof_tinfo in
            bindE (store64 tinfo f w1) (\<lambda>w2.
            bindE (store64 (tinfo + 8) x w2) (\<lambda>w3.
            bindE (store64 (tinfo + 16) addr w3) (\<lambda>w4.
            bindE (store64 (tinfo + 24) sz w4) (\<lambda>w5.
            bindE (store64 (tinfo + 32) guard w5) (\<lambda>w6.
            Inr (rc, w6\<lparr>trace := trace w6 @ [Spawn tinfo]\<rparr>))))))))"
    by (simp add: is_check_failure_bindE split_def Let_def)
  then show "\<not> is_check_failure (pthread_create mm dflt rc attr f x w)"
    using assms by (simp add: pthread_create_def kStackAlign_def PAGE_SIZE_def align16 align_page)
  from small show "\<not> in_range (base + sz - sizeof_tinfo) base sz"
    by (simp add: sizeof_tinfo_def record_below_base)
next
  assume "sizeof_tinfo \<le> sz"
  then show "in_range (base + sz - sizeof_tinfo) base sz"
    and "in_range (base + sz - sizeof_tinfo + 39) base sz"
    by (simp_all add: sizeof_tinfo_def record_within)
next
  assume "pthread_create mm dflt rc attr f x w = Inr (r, w')"
  from create_Inr [OF this assms(1)]
  show "\<exists>m. mm (sz + guard) = Some m
             \<and> last (trace w') = Spawn (m + guard + sz - sizeof_tinfo)
             \<and> heap w' (m + guard + sz - sizeof_tinfo) = f
             \<and> heap w' (m + guard + sz - sizeof_tinfo + 8) = x
             \<and> heap w' (m + guard + sz - sizeof_tinfo + 16) = m + guard
             \<and> heap w' (m + guard + sz - sizeof_tinfo + 24) = sz
             \<and> heap w' (m + guard + sz - sizeof_tinfo + 32) = guard"
    by (auto simp: handoff_written_def)
qed

theorem handoff_record_placement_witness:
  "stack_attrs dflt_example (Some tiny_attr) = (16, 0)
   \<and> (16 :: 64 word) \<noteq> 0 \<and> (16 :: nat) dvd unat (16 :: 64 word)
   \<and> (4096 :: nat) dvd unat (0 :: 64 word) \<and> (16 :: 64 word) < sizeof_tinfo
   \<and> \<not> is_check_failure (pthread_create mm_example dflt_example 0 (Some tiny_attr)
          0x401000 0x2A neighbour_example)
   \<and> \<not> in_range (0x7F0000000000 + 16 - sizeof_tinfo) 0x7F0000000000 16
   \<and> stack_attrs dflt_example (Some attr_example) = (0x100000, 0x1000)
   \<and> sizeof_tinfo \<le> 0x100000
   \<and> in_range 0x7F0000100FD8 0x7F0000001000 0x100000
   \<and> in_range 0x7F0000100FFF 0x7F0000001000 0x100000
   \<and> (\<exists>w'. pthread_create mm_example dflt_example 0 (Some attr_example) 0x401000 0x2A
               ready_example = Inr (0, w')
         \<and> heap w' 0x7F0000100FD8 = 0x401000 \<and> heap w' 0x7F0000100FE0 = 0x2A
         \<and> heap w' 0x7F0000100FE8 = 0x7F0000001000 \<and> heap w' 0x7F0000100FF0 = 0x100000
         \<and> heap w' 0x7F0000100FF8 = 0x1000)"
proof -
  let ?w2 = "handoff_written 0x7F0000000000 0x100000 0x1000 0x401000 0x2A 0x7F0000100FD8
               ready_example"
  have s1: "stack_attrs dflt_example (Some tiny_attr) = (16, 0)"
    and s2: "stack_attrs dflt_example (Some attr_example) = (0x100000, 0x1000)"
    by (simp_all add: stack_attrs_def tiny_attr_def attr_example_def)
  have h: "(16 :: 64 word) \<noteq> 0" "(16 :: nat) dvd unat (16 :: 64 word)"
    "(4096 :: nat) dvd unat (0 :: 64 word)" "(0x100000 :: 64 word) \<noteq> 0"
    "(16 :: nat) dvd unat (0x100000 :: 64 word)" "(4096 :: nat) dvd unat (0x1000 :: 64 word)"
    by simp_all
  have lt: "(16 :: 64 word) < sizeof_tinfo" "sizeof_tinfo \<le> 0x100000"
    by (simp_all add: sizeof_tinfo_def)
  note a = handoff_record_placement [OF s1 h(1,2,3), of mm_example 0 "0x401000" "0x2A"
      neighbour_example "0x7F0000000000" 0 ready_example]
  note b = handoff_record_placement [OF s2 h(4,5,6), of mm_example 0 "0x401000" "0x2A"
      ready_example "0x7F0000001000" 0 ?w2]
  note a1 = a [THEN conjunct1, THEN mp, OF lt(1)]
  note b2 = b [THEN conjunct2, THEN conjunct1, THEN mp, OF lt(2)]
  note b3 = b [THEN conjunct2, THEN conjunct2, THEN mp, OF create_example]
  have r2: "in_range 0x7F0000100FD8 0x7F0000001000 0x100000
     \<and> in_range 0x7F0000100FFF 0x7F0000001000 0x100000"
    using b2 by (simp add: sizeof_tinfo_def)
  have r3: "\<exists>w'. pthread_create mm_example dflt_example 0 (Some attr_example) 0x401000 0x2A
               ready_example = Inr (0, w')
         \<and> heap w' 0x7F0000100FD8 = 0x401000 \<and> heap w' 0x7F0000100FE0 = 0x2A
         \<and> heap w' 0x7F0000100FE8 = 0x7F0000001000 \<and> heap w' 0x7F0000100FF0 = 0x100000
         \<and> heap w' 0x7F0000100FF8 = 0x1000"
    using b3 create_example
    by (intro exI [of _ ?w2]) (auto simp: mm_example_def sizeof_tinfo_def)
  show ?thesis using s1 s2 h lt a1 r2 r3 by blast
qed

text \<open>
  C7. When \<^verbatim>\<open>__safestack_init\<close> returns, the main thread's size is the current stack
  limit if \<^verbatim>\<open>getrlimit\<close> returned 0 and the limit is not \<^verbatim>\<open>RLIM_INFINITY\<close>, and
  \<open>0x2800000\<close> otherwise; the guard size is 4096; the region starts 4096 bytes after the
  start of the one mapping made. It returns whenever the mapping is made at a 16-byte
  aligned address below the top of the address space and the size is a multiple of 16.
\<close>

theorem safestack_init_main_region:
  "(safestack_init mm rl w = Inr w' \<longrightarrow>
      unsafe_stack_size w' = (if fst rl = 0 \<and> snd rl \<noteq> - 1 then snd rl else 0x2800000)
      \<and> unsafe_stack_guard w' = 4096
      \<and> (\<exists>m. mm (unsafe_stack_size w' + 4096) = Some m
            \<and> unsafe_stack_start w' = m + 4096
            \<and> safestack_unsafe_stack_ptr w' = m + 4096 + unsafe_stack_size w'
            \<and> trace w' = trace w @ [Mmap m (unsafe_stack_size w' + 4096), Mprotect m 4096]))
   \<and> (sz = (if fst rl = 0 \<and> snd rl \<noteq> - 1 then snd rl else 0x2800000)
        \<and> mm (sz + 4096) = Some m \<and> unat m + 4096 + unat sz < 2 ^ 64
        \<and> unat m + 8192 < 2 ^ 64 \<and> 16 dvd unat m \<and> 16 dvd unat sz \<longrightarrow>
        (\<exists>w'. safestack_init mm rl w = Inr w' \<and> unsafe_stack_size w' = sz
            \<and> unsafe_stack_guard w' = 4096 \<and> unsafe_stack_start w' = m + 4096))"
proof (intro conjI impI)
  assume a: "safestack_init mm rl w = Inr w'"
  let ?sz = "if fst rl = 0 \<and> snd rl \<noteq> (- 1 :: 64 word) then snd rl else 0x2800000"
  have "safestack_init mm rl w = bindE (unsafe_stack_alloc mm ?sz 4096 w) (\<lambda>(addr, w1).
         bindE (unsafe_stack_setup addr ?sz 4096 w1) (\<lambda>w2.
         Inr (w2\<lparr>interceptor_installed := True, cleanup_key_created := True\<rparr>)))"
    by (simp add: safestack_init_def Let_def RLIM_INFINITY_def kDefaultUnsafeStackSize_def)
  with a obtain addr w1 w2 where
    al: "unsafe_stack_alloc mm ?sz 4096 w = Inr (addr, w1)"
    and st: "unsafe_stack_setup addr ?sz 4096 w1 = Inr w2"
    and w': "w' = w2\<lparr>interceptor_installed := True, cleanup_key_created := True\<rparr>"
    by (auto simp: bindE_Inr_iff)
  from st w' show "unsafe_stack_size w' = ?sz" "unsafe_stack_guard w' = 4096"
    by (simp_all add: setup_Inr)
  from al st w' show "\<exists>m. mm (unsafe_stack_size w' + 4096) = Some m
            \<and> unsafe_stack_start w' = m + 4096
            \<and> safestack_unsafe_stack_ptr w' = m + 4096 + unsafe_stack_size w'
            \<and> trace w' = trace w @ [Mmap m (unsafe_stack_size w' + 4096), Mprotect m 4096]"
    by (auto simp: setup_Inr alloc_Inr)
next
  assume a: "sz = (if fst rl = 0 \<and> snd rl \<noteq> - 1 then snd rl else 0x2800000)
        \<and> mm (sz + 4096) = Some m \<and> unat m + 4096 + unat sz < 2 ^ 64
        \<and> unat m + 8192 < 2 ^ 64 \<and> 16 dvd unat m \<and> 16 dvd unat sz"
  note szdef = a [THEN conjunct1]
  note mmS = a [THEN conjunct2, THEN conjunct1]
  note b1 = a [THEN conjunct2, THEN conjunct2, THEN conjunct1]
  note b2 = a [THEN conjunct2, THEN conjunct2, THEN conjunct2, THEN conjunct1]
  note d1 = a [THEN conjunct2, THEN conjunct2, THEN conjunct2, THEN conjunct2, THEN conjunct1]
  note d2 = a [THEN conjunct2, THEN conjunct2, THEN conjunct2, THEN conjunct2, THEN conjunct2]
  have u1: "unat (m + 4096) = unat m + 4096"
    using b2 unat_plus_no_wrap [of m 4096] by simp
  have u2: "unat (m + 4096 + sz) = unat m + 4096 + unat sz"
    using b1 u1 unat_plus_no_wrap [of "m + 4096" sz] by simp
  have c1: "sz \<le> sz + 4096" using b1 by (simp add: no_wrap_iff)
  have c2: "m + 4096 \<le> m + 4096 + sz" using b1 u1 by (simp add: no_wrap_iff)
  have c3: "m + 4096 \<le> m + 4096 + 4096"
    using b2 u1 no_wrap_iff [of "m + 4096" 4096, THEN iffD2] by simp
  have c4: "(m + 4096 + sz) AND 15 = 0" using d1 d2 u2 by (simp add: align16)
  let ?w1 = "w\<lparr>perms := set_perm m 4096 NoAccess (set_perm m (sz + 4096) ReadWrite (perms w)),
               trace := trace w @ [Mmap m (sz + 4096), Mprotect m 4096]\<rparr>"
  have al: "unsafe_stack_alloc mm sz 4096 w = Inr (m + 4096, ?w1)"
    using mmS c1 by (simp add: alloc_Inr)
  have st: "unsafe_stack_setup (m + 4096) sz 4096 ?w1 =
     Inr (?w1\<lparr>safestack_unsafe_stack_ptr := m + 4096 + sz, unsafe_stack_start := m + 4096,
            unsafe_stack_size := sz, unsafe_stack_guard := 4096\<rparr>)"
    using c2 c3 c4 by (simp add: setup_Inr)
  have "safestack_init mm rl w = bindE (unsafe_stack_alloc mm sz 4096 w) (\<lambda>(addr, w1).
         bindE (unsafe_stack_setup addr sz 4096 w1) (\<lambda>w2.
         Inr (w2\<lparr>interceptor_installed := True, cleanup_key_created := True\<rparr>)))"
    unfolding szdef
    by (simp add: safestack_init_def Let_def RLIM_INFINITY_def kDefaultUnsafeStackSize_def)
  then show "\<exists>w'. safestack_init mm rl w = Inr w' \<and> unsafe_stack_size w' = sz
            \<and> unsafe_stack_guard w' = 4096 \<and> unsafe_stack_start w' = m + 4096"
    by (simp add: al st)
qed

theorem safestack_init_main_region_witness:
  "mm_example (0x800000 + 4096) = Some 0x7F0000000000
   \<and> unat (0x7F0000000000 :: 64 word) + 4096 + unat (0x800000 :: 64 word) < 2 ^ 64
   \<and> unat (0x7F0000000000 :: 64 word) + 8192 < 2 ^ 64
   \<and> (16 :: nat) dvd unat (0x7F0000000000 :: 64 word)
   \<and> (16 :: nat) dvd unat (0x800000 :: 64 word)
   \<and> (\<exists>w'. safestack_init mm_example (0, 0x800000) boot_example = Inr w'
         \<and> unsafe_stack_size w' = 0x800000 \<and> unsafe_stack_guard w' = 4096
         \<and> unsafe_stack_start w' = 0x7F0000001000
         \<and> safestack_unsafe_stack_ptr w' = 0x7F0000801000
         \<and> trace w' = [Mmap 0x7F0000000000 0x801000, Mprotect 0x7F0000000000 0x1000])
   \<and> (\<exists>w'. safestack_init mm_example (0, - 1) boot_example = Inr w'
         \<and> unsafe_stack_size w' = 0x2800000 \<and> unsafe_stack_guard w' = 4096)
   \<and> (\<exists>w'. safestack_init mm_example (- 1, 0x800000) boot_example = Inr w'
         \<and> unsafe_stack_size w' = 0x2800000 \<and> unsafe_stack_guard w' = 4096)"
proof -
  have h1: "(0x800000 :: 64 word) = (if fst (0 :: int, 0x800000 :: 64 word) = 0
                \<and> snd (0 :: int, 0x800000 :: 64 word) \<noteq> - 1
              then snd (0 :: int, 0x800000 :: 64 word) else 0x2800000)
        \<and> mm_example (0x800000 + 4096) = Some 0x7F0000000000
        \<and> unat (0x7F0000000000 :: 64 word) + 4096 + unat (0x800000 :: 64 word) < 2 ^ 64
        \<and> unat (0x7F0000000000 :: 64 word) + 8192 < 2 ^ 64
        \<and> (16 :: nat) dvd unat (0x7F0000000000 :: 64 word)
        \<and> (16 :: nat) dvd unat (0x800000 :: 64 word)"
    by (simp add: mm_example_def)
  have h2: "(0x2800000 :: 64 word) = (if fst (0 :: int, - 1 :: 64 word) = 0
                \<and> snd (0 :: int, - 1 :: 64 word) \<noteq> - 1
              then snd (0 :: int, - 1 :: 64 word) else 0x2800000)
        \<and> mm_example (0x2800000 + 4096) = Some 0x7F0000000000
        \<and> unat (0x7F0000000000 :: 64 word) + 4096 + unat (0x2800000 :: 64 word) < 2 ^ 64
        \<and> unat (0x7F0000000000 :: 64 word) + 8192 < 2 ^ 64
        \<and> (16 :: nat) dvd unat (0x7F0000000000 :: 64 word)
        \<and> (16 :: nat) dvd unat (0x2800000 :: 64 word)"
    by (simp add: mm_example_def)
  have h3: "(0x2800000 :: 64 word) = (if fst (- 1 :: int, 0x800000 :: 64 word) = 0
                \<and> snd (- 1 :: int, 0x800000 :: 64 word) \<noteq> - 1
              then snd (- 1 :: int, 0x800000 :: 64 word) else 0x2800000)
        \<and> mm_example (0x2800000 + 4096) = Some 0x7F0000000000
        \<and> unat (0x7F0000000000 :: 64 word) + 4096 + unat (0x2800000 :: 64 word) < 2 ^ 64
        \<and> unat (0x7F0000000000 :: 64 word) + 8192 < 2 ^ 64
        \<and> (16 :: nat) dvd unat (0x7F0000000000 :: 64 word)
        \<and> (16 :: nat) dvd unat (0x2800000 :: 64 word)"
    by (simp add: mm_example_def)
  from safestack_init_main_region [of mm_example "(0, 0x800000)" boot_example boot_example
      "0x800000" "0x7F0000000000", THEN conjunct2, THEN mp, OF h1]
  obtain w1 where w1: "safestack_init mm_example (0, 0x800000) boot_example = Inr w1"
    "unsafe_stack_size w1 = 0x800000" "unsafe_stack_guard w1 = 4096"
    "unsafe_stack_start w1 = 0x7F0000000000 + 4096"
    by blast
  from safestack_init_main_region [of mm_example "(0, 0x800000)" boot_example w1
      "0x800000" "0x7F0000000000", THEN conjunct1, THEN mp, OF w1(1)]
  have r1: "safestack_unsafe_stack_ptr w1 = 0x7F0000801000
         \<and> trace w1 = [Mmap 0x7F0000000000 0x801000, Mprotect 0x7F0000000000 0x1000]"
    by (auto simp: mm_example_def boot_example_def)
  from safestack_init_main_region [of mm_example "(0, - 1)" boot_example boot_example
      "0x2800000" "0x7F0000000000", THEN conjunct2, THEN mp, OF h2]
  have r2: "\<exists>w'. safestack_init mm_example (0, - 1) boot_example = Inr w'
         \<and> unsafe_stack_size w' = 0x2800000 \<and> unsafe_stack_guard w' = 4096"
    by blast
  from safestack_init_main_region [of mm_example "(- 1, 0x800000)" boot_example boot_example
      "0x2800000" "0x7F0000000000", THEN conjunct2, THEN mp, OF h3]
  have r3: "\<exists>w'. safestack_init mm_example (- 1, 0x800000) boot_example = Inr w'
         \<and> unsafe_stack_size w' = 0x2800000 \<and> unsafe_stack_guard w' = 4096"
    by blast
  have r1': "\<exists>w'. safestack_init mm_example (0, 0x800000) boot_example = Inr w'
         \<and> unsafe_stack_size w' = 0x800000 \<and> unsafe_stack_guard w' = 4096
         \<and> unsafe_stack_start w' = 0x7F0000001000
         \<and> safestack_unsafe_stack_ptr w' = 0x7F0000801000
         \<and> trace w' = [Mmap 0x7F0000000000 0x801000, Mprotect 0x7F0000000000 0x1000]"
    using w1 r1 by (intro exI [of _ w1]) simp
  have "mm_example (0x800000 + 4096) = Some 0x7F0000000000
   \<and> unat (0x7F0000000000 :: 64 word) + 4096 + unat (0x800000 :: 64 word) < 2 ^ 64
   \<and> unat (0x7F0000000000 :: 64 word) + 8192 < 2 ^ 64
   \<and> (16 :: nat) dvd unat (0x7F0000000000 :: 64 word)
   \<and> (16 :: nat) dvd unat (0x800000 :: 64 word)"
    using h1 by blast
  then show ?thesis using r1' r2 r3 by blast
qed

text \<open>
  C8. Whatever the main thread runs of this runtime (the initializer, then any intercepted
  creations), its cleanup key stays null, its region stays the one the initializer
  installed, and no unmap call is made; the destructor passes, and so the exit of the
  thread, then change nothing. The key is set to a non-null value by \<^verbatim>\<open>thread_start\<close>.
\<close>

theorem main_region_never_released:
  assumes "cleanup_value w0 = 0" and "main_thread mm rl dflt cs w0 = Inr w"
  shows "cleanup_value w = 0
    \<and> filter is_munmap (trace w) = filter is_munmap (trace w0)
    \<and> (\<exists>m. mm (unsafe_stack_size w + 4096) = Some m \<and> unsafe_stack_start w = m + 4096)
    \<and> destructor_passes K n w = w
    \<and> thread_exit K w = w
    \<and> (thread_start_pre arg v = Inr (f, a, v') \<longrightarrow> cleanup_value v' = 1)"
proof -
  from assms(2) obtain w1 where
    i: "safestack_init mm rl w0 = Inr w1" and c: "main_calls dflt cs w1 = Inr w"
    by (auto simp: main_thread_def bindE_Inr_iff)
  note i' = init_keeps_cleanup_value [OF i]
  note c' = main_calls_keep_thread_state [OF c]
  have z: "cleanup_value w = 0" using i' c' assms(1) by simp
  have t: "thread_start_pre arg v = Inr (f, a, v') \<longrightarrow> cleanup_value v' = 1"
    by (auto simp: thread_start_pre_def bindE_Inr_iff pthread_setspecific_def)
  show ?thesis using z i' c' t by (simp add: passes_null thread_exit_def)
qed

theorem main_region_never_released_witness:
  "cleanup_value boot_example = 0
   \<and> (\<exists>w. main_thread mm_example (0, 0x800000) dflt_example
              [Create mm_second 0 None 0x401000 0x2A,
               Create mm_second 0 (Some attr_example) 0x401000 0x2B] boot_example = Inr w
        \<and> cleanup_value w = 0
        \<and> filter is_munmap (trace w) = []
        \<and> unsafe_stack_start w = 0x7F0000001000
        \<and> destructor_passes 4 4 w = w
        \<and> thread_exit 4 w = w)"
proof -
  have z: "cleanup_value boot_example = 0" by (simp add: boot_example_def)
  have "\<exists>w. main_thread mm_example (0, 0x800000) dflt_example
              [Create mm_second 0 None 0x401000 0x2A,
               Create mm_second 0 (Some attr_example) 0x401000 0x2B] boot_example = Inr w"
    by (simp add: main_thread_def safestack_init_def unsafe_stack_setup_def
        RLIM_INFINITY_def eval_defs mm_second_def cong: if_cong)
  then obtain w where w: "main_thread mm_example (0, 0x800000) dflt_example
              [Create mm_second 0 None 0x401000 0x2A,
               Create mm_second 0 (Some attr_example) 0x401000 0x2B] boot_example = Inr w"
    by blast
  note t = main_region_never_released [OF z w, of 4 4 0 boot_example 0 0 boot_example]
  have "filter is_munmap (trace w) = []" "unsafe_stack_start w = 0x7F0000001000"
    using t by (auto simp: boot_example_def mm_example_def)
  with t z w show ?thesis by blast
qed

text \<open>
  C9, as stated, fails. On the terminal pass of a thread with a region of \<open>0x100000\<close> bytes
  the region-start field becomes null, and the size, the guard size and the stack-pointer
  slot keep their values.
\<close>

theorem terminal_pass_clears_all_counterexample:
  "\<not> (4 :: 64 word) < 4
   \<and> unsafe_stack_start (thread_cleanup_handler 4 4 exiting_example) = 0
   \<and> unsafe_stack_size (thread_cleanup_handler 4 4 exiting_example) = 0x100000
   \<and> unsafe_stack_guard (thread_cleanup_handler 4 4 exiting_example) = 0x1000
   \<and> safestack_unsafe_stack_ptr (thread_cleanup_handler 4 4 exiting_example) = 0x7F0000101000
   \<and> \<not> (unsafe_stack_size (thread_cleanup_handler 4 4 exiting_example) = 0
        \<and> unsafe_stack_guard (thread_cleanup_handler 4 4 exiting_example) = 0
        \<and> safestack_unsafe_stack_ptr (thread_cleanup_handler 4 4 exiting_example) = 0)"
  by (simp add: thread_cleanup_handler_def unsafe_stack_free_def UnmapOrDie_def Let_def
      exiting_example_def armed_example_def)

text \<open>
  C9, amended. On a pass with a counter that is not below \<open>K\<close>, the handler sets the
  region-start field to null and, if it was not null, unmaps the region with its guard. The
  size, the guard size, the stack-pointer slot, the value of the cleanup key, the contents
  of memory and the installation flags are unchanged.
\<close>

theorem terminal_pass_frame:
  assumes "\<not> iter < K"
  shows "unsafe_stack_start (thread_cleanup_handler K iter w) = 0
    \<and> unsafe_stack_size (thread_cleanup_handler K iter w) = unsafe_stack_size w
    \<and> unsafe_stack_guard (thread_cleanup_handler K iter w) = unsafe_stack_guard w
    \<and> safestack_unsafe_stack_ptr (thread_cleanup_handler K iter w) = safestack_unsafe_stack_ptr w
    \<and> cleanup_value (thread_cleanup_handler K iter w) = cleanup_value w
    \<and> heap (thread_cleanup_handler K iter w) = heap w
    \<and> interceptor_installed (thread_cleanup_handler K iter w) = interceptor_installed w
    \<and> cleanup_key_created (thread_cleanup_handler K iter w) = cleanup_key_created w
    \<and> trace (thread_cleanup_handler K iter w) =
         trace w @ (if unsafe_stack_start w = 0 then []
                    else [Munmap (unsafe_stack_start w - unsafe_stack_guard w)
                            (unsafe_stack_size w + unsafe_stack_guard w)])
    \<and> perms (thread_cleanup_handler K iter w) =
         (if unsafe_stack_start w = 0 then perms w
          else set_perm (unsafe_stack_start w - unsafe_stack_guard w)
                 (unsafe_stack_size w + unsafe_stack_guard w) Unmapped (perms w))"
  using assms by (simp add: thread_cleanup_handler_def unsafe_stack_free_def UnmapOrDie_def Let_def)

theorem terminal_pass_frame_witness:
  "\<not> (4 :: 64 word) < 4
   \<and> unsafe_stack_start (thread_cleanup_handler 4 4 exiting_example) = 0
   \<and> unsafe_stack_size (thread_cleanup_handler 4 4 exiting_example) = 0x100000
   \<and> trace (thread_cleanup_handler 4 4 exiting_example) =
       [Mmap 0x7F0000000000 0x101000, Mprotect 0x7F0000000000 0x1000,
        Munmap 0x7F0000000000 0x101000]
   \<and> perms (thread_cleanup_handler 4 4 exiting_example) 0x7F0000001000 = Unmapped"
  using terminal_pass_frame [of 4 4 exiting_example]
  by (simp add: exiting_example_def armed_example_def set_perm_def in_pages_def
      round_up_page_def PAGE_SIZE_def)

text \<open>
  C10. The per-thread free operation is idempotent: it nulls the region-start field, so a
  second call, or a call on a thread with no region installed, unmaps nothing and changes
  nothing; two calls leave the state, and so the list of unmap calls, that one call leaves.
\<close>

theorem unsafe_stack_free_idempotent:
  "unsafe_stack_free (unsafe_stack_free w) = unsafe_stack_free w
   \<and> unsafe_stack_start (unsafe_stack_free w) = 0
   \<and> trace (unsafe_stack_free (unsafe_stack_free w)) = trace (unsafe_stack_free w)
   \<and> unsafe_stack_free (w\<lparr>unsafe_stack_start := 0\<rparr>) = w\<lparr>unsafe_stack_start := 0\<rparr>
   \<and> trace (unsafe_stack_free w) =
       trace w @ (if unsafe_stack_start w = 0 then []
                  else [Munmap (unsafe_stack_start w - unsafe_stack_guard w)
                          (unsafe_stack_size w + unsafe_stack_guard w)])"
  by (simp add: unsafe_stack_free_def UnmapOrDie_def Let_def)

theorem unsafe_stack_free_idempotent_witness:
  "unsafe_stack_free (unsafe_stack_free armed_example) = unsafe_stack_free armed_example
   \<and> unsafe_stack_start (unsafe_stack_free armed_example) = 0
   \<and> trace (unsafe_stack_free (unsafe_stack_free armed_example)) =
       [Mmap 0x7F0000000000 0x101000, Mprotect 0x7F0000000000 0x1000,
        Munmap 0x7F0000000000 0x101000]"
  using unsafe_stack_free_idempotent [of armed_example]
  by (simp add: armed_example_def)

end
